theory Spec2Isabelle
  imports Complex_Main "HOL-Library.Word" "HOL-Library.Multiset"
begin

unbundle bit_operations_syntax

section \<open>Python values\<close>

subsection \<open>Floats\<close>

text \<open>
  A Python float is a finite number, one of the two infinities, or NaN. Finite values are
  idealised as reals: rounding, overflow to infinity and the sign of zero are not
  represented. Comparisons follow IEEE 754: every comparison with NaN is false.
\<close>

datatype pyfloat = Fin real | PInf | NInf | NaN

fun pf_lt :: "pyfloat \<Rightarrow> pyfloat \<Rightarrow> bool" where
  "pf_lt (Fin a) (Fin b) = (a < b)"
| "pf_lt NaN _ = False"
| "pf_lt _ NaN = False"
| "pf_lt _ NInf = False"
| "pf_lt NInf _ = True"
| "pf_lt PInf _ = False"
| "pf_lt (Fin a) PInf = True"

text \<open>
  The builtins \<open>min(a, b)\<close> and \<open>max(a, b)\<close> keep the first argument unless the second
  one is strictly smaller (strictly larger).
\<close>

definition py_min :: "pyfloat \<Rightarrow> pyfloat \<Rightarrow> pyfloat" where
  "py_min a b = (if pf_lt b a then b else a)"

definition py_max :: "pyfloat \<Rightarrow> pyfloat \<Rightarrow> pyfloat" where
  "py_max a b = (if pf_lt a b then b else a)"

fun pf_add :: "pyfloat \<Rightarrow> pyfloat \<Rightarrow> pyfloat" where
  "pf_add (Fin a) (Fin b) = Fin (a + b)"
| "pf_add NaN _ = NaN"
| "pf_add _ NaN = NaN"
| "pf_add PInf NInf = NaN"
| "pf_add NInf PInf = NaN"
| "pf_add PInf _ = PInf"
| "pf_add NInf _ = NInf"
| "pf_add (Fin a) b = b"

definition pf_sign :: "pyfloat \<Rightarrow> int" where
  "pf_sign x = (case x of Fin a \<Rightarrow> (if a < 0 then - 1 else if a = 0 then 0 else 1)
                 | PInf \<Rightarrow> 1 | NInf \<Rightarrow> - 1 | NaN \<Rightarrow> 0)"

definition pf_inf :: "int \<Rightarrow> pyfloat" where
  "pf_inf s = (if s < 0 then NInf else if s = 0 then NaN else PInf)"

fun pf_mul :: "pyfloat \<Rightarrow> pyfloat \<Rightarrow> pyfloat" where
  "pf_mul (Fin a) (Fin b) = Fin (a * b)"
| "pf_mul NaN _ = NaN"
| "pf_mul _ NaN = NaN"
| "pf_mul a b = pf_inf (pf_sign a * pf_sign b)"

text \<open>Division of numpy scalars: a zero divisor gives an infinity or NaN, not an exception.\<close>

fun pf_div :: "pyfloat \<Rightarrow> pyfloat \<Rightarrow> pyfloat" where
  "pf_div (Fin a) (Fin b) = (if b = 0 then pf_inf (pf_sign (Fin a)) else Fin (a / b))"
| "pf_div NaN _ = NaN"
| "pf_div _ NaN = NaN"
| "pf_div (Fin a) _ = Fin 0"
| "pf_div a (Fin b) = pf_inf (pf_sign a * (if b < 0 then - 1 else 1))"
| "pf_div _ _ = NaN"

fun pf_sqrt :: "pyfloat \<Rightarrow> pyfloat" where
  "pf_sqrt (Fin a) = (if a < 0 then NaN else Fin (sqrt a))"
| "pf_sqrt PInf = PInf"
| "pf_sqrt _ = NaN"

subsection \<open>JSON values and the Python operations the pipeline applies to them\<close>

text \<open>
  The values that travel through the pipeline are what \<open>json.load\<close> produces: \<open>None\<close>,
  booleans, numbers, strings, lists and dicts with string keys. A dict is an association
  list in insertion order; a lookup finds the first entry of a key. Strings are sequences
  of characters; the only non-ASCII character of the source, an em dash, is written as
  its three UTF-8 bytes, so that \<open>str.encode("utf-8")\<close> is the identity.
\<close>

datatype json =
    JNull
  | JBool bool
  | JInt int
  | JFloat pyfloat
  | JStr string
  | JList "json list"
  | JDict "(string \<times> json) list"

datatype error =
    TypeError
  | AttributeError
  | KeyError
  | ValueError
  | JSONDecodeError
  | RuntimeError
  | BackendError

text \<open>Truth value of an object, as tested by \<open>if cached:\<close>.\<close>

fun truthy :: "json \<Rightarrow> bool" where
  "truthy JNull = False"
| "truthy (JBool b) = b"
| "truthy (JInt i) = (i \<noteq> 0)"
| "truthy (JFloat x) = (x \<noteq> Fin 0)"
| "truthy (JStr s) = (s \<noteq> [])"
| "truthy (JList xs) = (xs \<noteq> [])"
| "truthy (JDict kvs) = (kvs \<noteq> [])"

text \<open>\<open>x[k]\<close> with a string \<open>k\<close>: only a dict can be subscripted by a string.\<close>

fun py_getitem :: "json \<Rightarrow> string \<Rightarrow> error + json" where
  "py_getitem (JDict kvs) k = (case map_of kvs k of None \<Rightarrow> Inl KeyError | Some v \<Rightarrow> Inr v)"
| "py_getitem _ k = Inl TypeError"

text \<open>\<open>x.get(k, d)\<close>: only a dict has the method.\<close>

fun py_get :: "json \<Rightarrow> string \<Rightarrow> json \<Rightarrow> error + json" where
  "py_get (JDict kvs) k d = Inr (case map_of kvs k of None \<Rightarrow> d | Some v \<Rightarrow> v)"
| "py_get _ k d = Inl AttributeError"

text \<open>
  \<open>xs[:n]\<close>: a negative \<open>n\<close> counts from the end. Only lists and strings can be
  sliced; every other value raises (a dict raises \<open>KeyError\<close> from Python 3.12 on, which
  the caller's \<open>except Exception\<close> treats alike).
\<close>

definition slice_to :: "int \<Rightarrow> 'a list \<Rightarrow> 'a list" where
  "slice_to n xs = (if 0 \<le> n then take (nat n) xs else take (length xs - nat (- n)) xs)"

fun py_slice_to :: "json \<Rightarrow> int \<Rightarrow> error + json" where
  "py_slice_to (JList xs) n = Inr (JList (slice_to n xs))"
| "py_slice_to (JStr s) n = Inr (JStr (slice_to n s))"
| "py_slice_to _ n = Inl TypeError"

fun py_len :: "json \<Rightarrow> error + nat" where
  "py_len (JList xs) = Inr (length xs)"
| "py_len (JStr s) = Inr (length s)"
| "py_len (JDict kvs) = Inr (length kvs)"
| "py_len _ = Inl TypeError"

fun py_append :: "json \<Rightarrow> json \<Rightarrow> error + json" where
  "py_append (JList xs) v = Inr (JList (xs @ [v]))"
| "py_append _ v = Inl AttributeError"

text \<open>
  \<open>a + b\<close> on the two values \<open>generate_copy_variations\<close> returns, each of which is a list
  or a string.
\<close>

fun py_add :: "json \<Rightarrow> json \<Rightarrow> error + json" where
  "py_add (JList xs) (JList ys) = Inr (JList (xs @ ys))"
| "py_add (JStr s) (JStr t) = Inr (JStr (s @ t))"
| "py_add _ _ = Inl TypeError"

text \<open>\<open>for c in x\<close>: the items of a list, the characters of a string, the keys of a dict.\<close>

fun py_iter :: "json \<Rightarrow> error + json list" where
  "py_iter (JList xs) = Inr xs"
| "py_iter (JStr s) = Inr (map (\<lambda>c. JStr [c]) s)"
| "py_iter (JDict kvs) = Inr (map (\<lambda>kv. JStr (fst kv)) kvs)"
| "py_iter _ = Inl TypeError"

subsection \<open>Formatting an integer in an f-string\<close>

definition digit_char :: "nat \<Rightarrow> char" where
  "digit_char d = ''0123456789'' ! d"

fun str_nat :: "nat \<Rightarrow> string" where
  "str_nat n = (if n < 10 then [digit_char n] else str_nat (n div 10) @ [digit_char (n mod 10)])"

declare str_nat.simps [simp del]

definition str_int :: "int \<Rightarrow> string" where
  "str_int i = (if i < 0 then CHR ''-'' # str_nat (nat (- i)) else str_nat (nat i))"

section \<open>SHA-256 (\<open>hashlib.sha256\<close>)\<close>

text \<open>
  The digest the cache and the scorer's fallback embedding are built on (FIPS 180-4):
  32-bit words, big-endian, 64 rounds per 512-bit block.
\<close>

type_synonym byte = "8 word"
type_synonym w32 = "32 word"
type_synonym sha_state = "w32 \<times> w32 \<times> w32 \<times> w32 \<times> w32 \<times> w32 \<times> w32 \<times> w32"

definition sha_k :: "w32 list" where
  "sha_k =
    [1116352408, 1899447441, 3049323471, 3921009573, 961987163, 1508970993,
     2453635748, 2870763221, 3624381080, 310598401, 607225278, 1426881987,
     1925078388, 2162078206, 2614888103, 3248222580, 3835390401, 4022224774,
     264347078, 604807628, 770255983, 1249150122, 1555081692, 1996064986,
     2554220882, 2821834349, 2952996808, 3210313671, 3336571891, 3584528711,
     113926993, 338241895, 666307205, 773529912, 1294757372, 1396182291,
     1695183700, 1986661051, 2177026350, 2456956037, 2730485921, 2820302411,
     3259730800, 3345764771, 3516065817, 3600352804, 4094571909, 275423344,
     430227734, 506948616, 659060556, 883997877, 958139571, 1322822218,
     1537002063, 1747873779, 1955562222, 2024104815, 2227730452, 2361852424,
     2428436474, 2756734187, 3204031479, 3329325298]"

definition sha_init :: sha_state where
  "sha_init = (1779033703, 3144134277, 1013904242, 2773480762,
               1359893119, 2600822924, 528734635, 1541459225)"

definition sha_ch :: "w32 \<Rightarrow> w32 \<Rightarrow> w32 \<Rightarrow> w32" where
  "sha_ch x y z = (x AND y) XOR (NOT x AND z)"

definition sha_maj :: "w32 \<Rightarrow> w32 \<Rightarrow> w32 \<Rightarrow> w32" where
  "sha_maj x y z = (x AND y) XOR (x AND z) XOR (y AND z)"

definition big_sigma0 :: "w32 \<Rightarrow> w32" where
  "big_sigma0 x = word_rotr 2 x XOR word_rotr 13 x XOR word_rotr 22 x"

definition big_sigma1 :: "w32 \<Rightarrow> w32" where
  "big_sigma1 x = word_rotr 6 x XOR word_rotr 11 x XOR word_rotr 25 x"

definition small_sigma0 :: "w32 \<Rightarrow> w32" where
  "small_sigma0 x = word_rotr 7 x XOR word_rotr 18 x XOR drop_bit 3 x"

definition small_sigma1 :: "w32 \<Rightarrow> w32" where
  "small_sigma1 x = word_rotr 17 x XOR word_rotr 19 x XOR drop_bit 10 x"

text \<open>The length of the message in bits, as eight bytes, most significant first.\<close>

definition length_bytes :: "nat \<Rightarrow> byte list" where
  "length_bytes n =
     (let l = (of_nat (8 * n) :: 64 word)
      in map (\<lambda>i. ucast (drop_bit (8 * (7 - i)) l)) [0..<8])"

definition sha_pad :: "byte list \<Rightarrow> byte list" where
  "sha_pad m = m @ [128] @ replicate ((119 - length m mod 64) mod 64) 0
                 @ length_bytes (length m)"

fun chunks :: "nat \<Rightarrow> 'a list \<Rightarrow> 'a list list" where
  "chunks n xs = (if n = 0 \<or> xs = [] then [] else take n xs # chunks n (drop n xs))"

declare chunks.simps [simp del]

definition be_word :: "byte list \<Rightarrow> w32" where
  "be_word bs = foldl (\<lambda>acc b. push_bit 8 acc OR ucast b) 0 bs"

fun sha_schedule :: "nat \<Rightarrow> w32 list \<Rightarrow> w32 list" where
  "sha_schedule 0 w = w"
| "sha_schedule (Suc k) w =
     (let t = length w
      in sha_schedule k (w @ [small_sigma1 (w ! (t - 2)) + w ! (t - 7)
                               + small_sigma0 (w ! (t - 15)) + w ! (t - 16)]))"

definition sha_round :: "sha_state \<Rightarrow> w32 \<times> w32 \<Rightarrow> sha_state" where
  "sha_round s kw =
     (case s of (a, b, c, d, e, f, g, h) \<Rightarrow>
        let t1 = h + big_sigma1 e + sha_ch e f g + fst kw + snd kw;
            t2 = big_sigma0 a + sha_maj a b c
        in (t1 + t2, a, b, c, d + t1, e, f, g))"

definition sha_compress :: "sha_state \<Rightarrow> byte list \<Rightarrow> sha_state" where
  "sha_compress s block =
     (let w = sha_schedule 48 (map be_word (chunks 4 block))
      in case (s, foldl sha_round s (zip sha_k w)) of
           ((a, b, c, d, e, f, g, h), (a', b', c', d', e', f', g', h')) \<Rightarrow>
             (a + a', b + b', c + c', d + d', e + e', f + f', g + g', h + h'))"

definition word_bytes :: "w32 \<Rightarrow> byte list" where
  "word_bytes x = [ucast (drop_bit 24 x), ucast (drop_bit 16 x), ucast (drop_bit 8 x), ucast x]"

definition sha256 :: "byte list \<Rightarrow> byte list" where
  "sha256 m =
     (case foldl sha_compress sha_init (chunks 64 (sha_pad m)) of
        (a, b, c, d, e, f, g, h) \<Rightarrow>
          word_bytes a @ word_bytes b @ word_bytes c @ word_bytes d @
          word_bytes e @ word_bytes f @ word_bytes g @ word_bytes h)"

text \<open>\<open>str.encode("utf-8")\<close>, \<open>.digest()\<close> and \<open>.hexdigest()\<close>.\<close>

definition encode_utf8 :: "string \<Rightarrow> byte list" where
  "encode_utf8 s = map (\<lambda>c. of_nat (of_char c)) s"

definition hex_char :: "nat \<Rightarrow> char" where
  "hex_char d = ''0123456789abcdef'' ! d"

definition hex_of_bytes :: "byte list \<Rightarrow> string" where
  "hex_of_bytes bs = concat (map (\<lambda>b. [hex_char (unat b div 16), hex_char (unat b mod 16)]) bs)"

definition sha256_digest :: "string \<Rightarrow> byte list" where
  "sha256_digest s = sha256 (encode_utf8 s)"

definition sha256_hexdigest :: "string \<Rightarrow> string" where
  "sha256_hexdigest s = hex_of_bytes (sha256_digest s)"

section \<open>Data model\<close>

text \<open>
  The brief is the pydantic model \<open>Brief\<close> of \<open>main.py\<close>; the orchestrator receives
  \<open>brief.dict()\<close>, in which every field is present, so the defaults of the \<open>.get\<close> calls
  on it are never taken.
\<close>

record brief =
  product :: string
  audience :: string
  tone :: string
  goal :: string
  platform :: "string list"
  extra :: "(string \<times> json) list"
  num_headlines :: int
  num_long :: int

text \<open>One entry of \<open>results\<close>: the dict built in the scoring loop of \<open>run\<close>.\<close>

record scored_asset =
  copy :: json
  image_url :: json
  local_path :: json
  score :: pyfloat

text \<open>
  The collaborators outside the repository, as one run sees them. An \<open>Inl\<close> stands for
  an exception raised by the call.
\<close>

record env =
  has_openai_key :: bool
    \<comment> \<open>\<open>OPENAI_API_KEY\<close> is set\<close>
  langchain_available :: bool
    \<comment> \<open>\<open>LANGCHAIN_AVAILABLE\<close>\<close>
  chat_json :: "string \<Rightarrow> string \<Rightarrow> error + json"
    \<comment> \<open>\<open>llm_client.py\<close> lines 29-67: the chat completion for a system and a user
        message, and the JSON value parsed from its text\<close>
  lc_headlines :: "string \<Rightarrow> string \<Rightarrow> string \<Rightarrow> int \<Rightarrow> error + json list"
    \<comment> \<open>\<open>langchain_agent.py\<close> lines 92-109: the headline chain and the list parsed from
        its output\<close>
  lc_long :: "string \<Rightarrow> string \<Rightarrow> string \<Rightarrow> int \<Rightarrow> error + json list"
    \<comment> \<open>lines 95-116, likewise for the long copies\<close>
  lc_prompt :: "string \<Rightarrow> string \<Rightarrow> string \<Rightarrow> json \<Rightarrow> string \<Rightarrow> error + string"
    \<comment> \<open>lines 123-125: the prompt chain for one copy\<close>
  cache_dir :: string
    \<comment> \<open>\<open>CACHE_DIR\<close>\<close>
  image_provider :: string
    \<comment> \<open>\<open>IMAGE_PROVIDER\<close>, lower-cased\<close>
  openai_image_ok :: "string \<Rightarrow> bool"
    \<comment> \<open>\<open>image_client.py\<close> lines 33-49 complete without an exception\<close>
  legacy_image_ok :: "string \<Rightarrow> bool"
    \<comment> \<open>lines 55-69 complete without an exception\<close>
  placeholder_ok :: "nat \<Rightarrow> bool"
    \<comment> \<open>lines 75-80 complete without an exception, at the n-th render\<close>
  uuid_hex12 :: "nat \<Rightarrow> string"
    \<comment> \<open>\<open>uuid.uuid4().hex[:12]\<close> at the n-th render\<close>
  out_dir :: string
    \<comment> \<open>\<open>OUT_DIR\<close>\<close>
  abspath :: "string \<Rightarrow> string"
    \<comment> \<open>\<open>os.path.abspath\<close>\<close>
  embedding_api :: "json \<Rightarrow> error + pyfloat list"
    \<comment> \<open>\<open>scorer.py\<close> lines 36-38: the embedding request and its conversion to an array\<close>
  clip_loaded :: bool
    \<comment> \<open>\<open>clip_model is not None\<close>\<close>
  clip_encode :: "json \<Rightarrow> error + pyfloat list"
    \<comment> \<open>\<open>scorer.py\<close> lines 52-57: the normalised CLIP embedding of the image at a path\<close>

text \<open>
  The state a run changes: the files of the cache directory, and two logs that record
  every call of the image renderer and every cache write, in the order they happen.
  A cache file holds the JSON document that \<open>json.dump\<close> wrote, which \<open>json.load\<close>
  gives back, or text that \<open>json.load\<close> rejects.
\<close>

datatype cache_file = Doc json | Corrupt

record world =
  files :: "string \<rightharpoonup> cache_file"
  render_log :: "string list"
  write_log :: "string list"

section \<open>\<open>llm_client.py\<close>\<close>

definition nl :: string where
  "nl = [CHR 0x0A]"

definition dq :: string where
  "dq = [CHR 0x22]"

definition sq :: string where
  "sq = [CHR 0x27]"

definition system_msg :: string where
  "system_msg =
     ''You are a creative marketing copywriter. '' @
     ''Given a short brief, produce the requested number of short headline variations '' @
     ''and long copy variations. Output only valid JSON with keys '' @ sq @ ''headlines'' @ sq @
     '' and '' @ sq @ ''long'' @ sq @ ''.''"

definition user_msg :: "brief \<Rightarrow> int \<Rightarrow> int \<Rightarrow> string" where
  "user_msg b nh nlong =
     ''Brief:'' @ nl @ ''Product: '' @ product b @ nl @ ''Audience: '' @ audience b @ nl @
     ''Tone: '' @ tone b @ nl @ ''Goal: '' @ goal b @ nl @ nl @
     ''Instructions: Return a JSON object like {'' @ dq @ ''headlines'' @ dq @ '': [..], '' @
     dq @ ''long'' @ dq @ '': [..]} with '' @
     str_int nh @ '' short headline variations (keep them <=8 words) and '' @
     str_int nlong @ '' long copy variations (1-2 sentences).''"

definition headline_text :: "string \<Rightarrow> nat \<Rightarrow> string" where
  "headline_text p i = p @ '' - Unleash Energy #'' @ str_nat i"

definition long_text :: "string \<Rightarrow> nat \<Rightarrow> string" where
  "long_text p i = p @ '' long copy version '' @ str_nat i"

text \<open>
  \<open>while len(xs) < n: xs.append(mk(len(xs) + 1))\<close>, the padding loop of lines 72-75.
\<close>

function pad_items :: "(nat \<Rightarrow> string) \<Rightarrow> int \<Rightarrow> json \<Rightarrow> error + json" where
  "pad_items mk n xs =
     (case py_len xs of
        Inl e \<Rightarrow> Inl e
      | Inr k \<Rightarrow>
          if int k < n
          then (case py_append xs (JStr (mk (k + 1))) of
                  Inl e \<Rightarrow> Inl e
                | Inr xs' \<Rightarrow> pad_items mk n xs')
          else Inr xs)"
  by pat_completeness auto
termination
proof (relation "measure (\<lambda>(mk, n, xs). nat (n - (case py_len xs of Inl e \<Rightarrow> 0 | Inr k \<Rightarrow> int k)))")
  show "wf (measure (\<lambda>(mk, n, xs). nat (n - (case py_len xs of Inl e \<Rightarrow> 0 | Inr k \<Rightarrow> int k))))"
    by simp
next
  fix mk :: "nat \<Rightarrow> string" and n :: int and xs :: json and k :: nat and xs' :: json
  assume len: "py_len xs = Inr k" and lt: "int k < n"
    and app: "py_append xs (JStr (mk (k + 1))) = Inr xs'"
  from app obtain l where xs: "xs = JList l" and xs': "xs' = JList (l @ [JStr (mk (k + 1))])"
    by (cases xs) auto
  from len xs have "k = length l" by simp
  with lt xs xs'
  show "((mk, n, xs'), (mk, n, xs))
          \<in> measure (\<lambda>(mk, n, xs). nat (n - (case py_len xs of Inl e \<Rightarrow> 0 | Inr k \<Rightarrow> int k)))"
    by simp
qed

declare pad_items.simps [simp del]

text \<open>The body of the \<open>try\<close> of lines 28-76; an \<open>Inl\<close> is an exception raised in it.\<close>

definition copy_variations_openai ::
  "env \<Rightarrow> brief \<Rightarrow> int \<Rightarrow> int \<Rightarrow> error + json \<times> json" where
  "copy_variations_openai ev b nh nlong =
     (case chat_json ev system_msg (user_msg b nh nlong) of
        Inl e \<Rightarrow> Inl e
      | Inr j \<Rightarrow>
     (case py_get j ''headlines'' (JList []) of
        Inl e \<Rightarrow> Inl e
      | Inr h0 \<Rightarrow>
     (case py_slice_to h0 nh of
        Inl e \<Rightarrow> Inl e
      | Inr headlines \<Rightarrow>
     (case py_get j ''long'' (JList []) of
        Inl e \<Rightarrow> Inl e
      | Inr l0 \<Rightarrow>
     (case py_slice_to l0 nlong of
        Inl e \<Rightarrow> Inl e
      | Inr long \<Rightarrow>
     (case pad_items (headline_text (product b)) nh headlines of
        Inl e \<Rightarrow> Inl e
      | Inr headlines' \<Rightarrow>
     (case pad_items (long_text (product b)) nlong long of
        Inl e \<Rightarrow> Inl e
      | Inr long' \<Rightarrow> Inr (headlines', long'))))))))"

text \<open>Lines 83-85: the deterministic fallback.\<close>

definition copy_variations_fallback :: "brief \<Rightarrow> int \<Rightarrow> int \<Rightarrow> json \<times> json" where
  "copy_variations_fallback b nh nlong =
     (JList (map (\<lambda>i. JStr (headline_text (product b) (i + 1))) [0..<nat nh]),
      JList (map (\<lambda>i. JStr (long_text (product b) (i + 1))) [0..<nat nlong]))"

definition generate_copy_variations :: "env \<Rightarrow> brief \<Rightarrow> int \<Rightarrow> int \<Rightarrow> json \<times> json" where
  "generate_copy_variations ev b nh nlong =
     (if has_openai_key ev
      then (case copy_variations_openai ev b nh nlong of
              Inl e \<Rightarrow> copy_variations_fallback b nh nlong
            | Inr r \<Rightarrow> r)
      else copy_variations_fallback b nh nlong)"

text \<open>The f-string of line 90; its two holes are the brief's product and audience.\<close>

definition image_prompt :: "string \<Rightarrow> string \<Rightarrow> string" where
  "image_prompt p a =
     ''Ad image for '' @ p @ '' targeting '' @ a @ '' '' @
     [CHR 0xE2, CHR 0x80, CHR 0x94] @
     '' style: vibrant, dynamic, in-frame product shot, bold colors, youthful energy. '' @
     ''Include branding and clear product focus.''"

definition generate_image_prompts :: "brief \<Rightarrow> json \<Rightarrow> error + string list" where
  "generate_image_prompts b copies =
     (case py_iter copies of
        Inl e \<Rightarrow> Inl e
      | Inr cs \<Rightarrow> Inr (map (\<lambda>c. image_prompt (product b) (audience b)) cs))"

section \<open>\<open>cache.py\<close>\<close>

text \<open>\<open>os.path.join\<close> of two components (POSIX).\<close>

definition path_join :: "string \<Rightarrow> string \<Rightarrow> string" where
  "path_join a b =
     (if b \<noteq> [] \<and> hd b = CHR ''/'' then b
      else if a = [] \<or> last a = CHR ''/'' then a @ b
      else a @ ''/'' @ b)"

definition PromptCache_key :: "env \<Rightarrow> string \<Rightarrow> string" where
  "PromptCache_key ev prompt = path_join (cache_dir ev) (sha256_hexdigest prompt @ ''.json'')"

definition PromptCache_get :: "env \<Rightarrow> world \<Rightarrow> string \<Rightarrow> error + json" where
  "PromptCache_get ev w prompt =
     (case files w (PromptCache_key ev prompt) of
        None \<Rightarrow> Inr JNull
      | Some Corrupt \<Rightarrow> Inl JSONDecodeError
      | Some (Doc v) \<Rightarrow> Inr v)"

definition PromptCache_set :: "env \<Rightarrow> world \<Rightarrow> string \<Rightarrow> json \<Rightarrow> string \<times> world" where
  "PromptCache_set ev w prompt data =
     (let path = PromptCache_key ev prompt
      in (path, w\<lparr>files := (files w)(path \<mapsto> Doc data),
                   write_log := write_log w @ [prompt]\<rparr>))"

section \<open>\<open>image_client.py\<close>\<close>

text \<open>
  \<open>generate_image\<close> never raises: every backend failure ends in the placeholder, and a
  failure of the placeholder in a dict with empty path and url. Each call is recorded in
  \<open>render_log\<close>.
\<close>

definition image_dict :: "env \<Rightarrow> nat \<Rightarrow> string \<Rightarrow> json" where
  "image_dict ev n prompt =
     (let path = path_join (out_dir ev) (uuid_hex12 ev n @ ''.png'')
      in JDict [(''path'', JStr path), (''url'', JStr (''file://'' @ abspath ev path)),
                (''prompt'', JStr prompt)])"

definition placeholder_image :: "env \<Rightarrow> nat \<Rightarrow> string \<Rightarrow> json" where
  "placeholder_image ev n prompt =
     (if placeholder_ok ev n then image_dict ev n prompt
      else JDict [(''path'', JStr []), (''url'', JStr []), (''prompt'', JStr prompt)])"

definition generate_image :: "env \<Rightarrow> world \<Rightarrow> string \<Rightarrow> json \<times> world" where
  "generate_image ev w prompt =
     (let n = length (render_log w);
          w' = w\<lparr>render_log := render_log w @ [prompt]\<rparr>
      in if image_provider ev = ''openai''
         then (if openai_image_ok ev prompt then (image_dict ev n prompt, w')
               else if legacy_image_ok ev prompt then (image_dict ev n prompt, w')
               else (placeholder_image ev n prompt, w'))
         else (placeholder_image ev n prompt, w'))"

section \<open>\<open>scorer.py\<close>\<close>

definition fallback_embedding :: "string \<Rightarrow> pyfloat list" where
  "fallback_embedding text =
     (let h = sha256_digest text;
          arr = map (\<lambda>b. Fin (real (unat b))) h
      in if length arr < 1536 then arr @ replicate (1536 - length arr) (Fin 0) else arr)"

text \<open>
  \<open>_text_embedding\<close>: the fallback runs inside the \<open>except\<close> branch, so an exception
  of the fallback itself (\<open>text.encode\<close> on a value that is not a string) leaves the
  function.
\<close>

definition text_embedding :: "env \<Rightarrow> json \<Rightarrow> error + pyfloat list" where
  "text_embedding ev text =
     (case embedding_api ev text of
        Inr v \<Rightarrow> Inr v
      | Inl e \<Rightarrow> (case text of JStr s \<Rightarrow> Inr (fallback_embedding s) | _ \<Rightarrow> Inl AttributeError))"

definition image_embedding_clip :: "env \<Rightarrow> json \<Rightarrow> error + pyfloat list" where
  "image_embedding_clip ev image_path =
     (if \<not> clip_loaded ev then Inl RuntimeError else clip_encode ev image_path)"

definition caption_image_via_llm :: "json \<Rightarrow> string" where
  "caption_image_via_llm image_path =
     ''A high-energy image with product in focus and vibrant colors.''"

text \<open>\<open>np.linalg.norm\<close> and \<open>np.dot\<close> on one-dimensional arrays.\<close>

definition np_norm :: "pyfloat list \<Rightarrow> pyfloat" where
  "np_norm v = pf_sqrt (foldl pf_add (Fin 0) (map (\<lambda>x. pf_mul x x) v))"

definition np_dot :: "pyfloat list \<Rightarrow> pyfloat list \<Rightarrow> error + pyfloat" where
  "np_dot u v =
     (if length u = length v then Inr (foldl pf_add (Fin 0) (map2 pf_mul u v))
      else Inl ValueError)"

text \<open>The body of the \<open>try\<close> in \<open>score\<close> (lines 64-75).\<close>

definition score_try :: "env \<Rightarrow> json \<Rightarrow> json \<Rightarrow> error + pyfloat" where
  "score_try ev text image_path =
     (case text_embedding ev text of
        Inl e \<Rightarrow> Inl e
      | Inr text_emb \<Rightarrow>
     (case (if clip_loaded ev then image_embedding_clip ev image_path
            else text_embedding ev (JStr (caption_image_via_llm image_path))) of
        Inl e \<Rightarrow> Inl e
      | Inr img_emb \<Rightarrow>
          let denom = pf_add (pf_mul (np_norm text_emb) (np_norm img_emb)) (Fin (1 / 10 ^ 12))
          in (case np_dot text_emb img_emb of
                Inl e \<Rightarrow> Inl e
              | Inr d \<Rightarrow>
                  let s = pf_div d denom
                  in Inr (py_max (Fin 0) (py_min (Fin 1) (pf_div (pf_add s (Fin 1)) (Fin 2)))))))"

definition CoherenceScorer_score :: "env \<Rightarrow> json \<Rightarrow> json \<Rightarrow> pyfloat" where
  "CoherenceScorer_score ev text image_path =
     (case score_try ev text image_path of
        Inl e \<Rightarrow> Fin (4 / 10)
      | Inr s \<Rightarrow> s)"

section \<open>\<open>langchain_agent.py\<close>: the orchestrator\<close>

subsection \<open>Copies and prompts (lines 83-132)\<close>

fun traverse :: "('a \<Rightarrow> error + 'b) \<Rightarrow> 'a list \<Rightarrow> error + 'b list" where
  "traverse f [] = Inr []"
| "traverse f (x # xs) =
     (case f x of
        Inl e \<Rightarrow> Inl e
      | Inr y \<Rightarrow> (case traverse f xs of Inl e \<Rightarrow> Inl e | Inr ys \<Rightarrow> Inr (y # ys)))"

definition join_comma :: "string list \<Rightarrow> string" where
  "join_comma xs = (case xs of [] \<Rightarrow> [] | y # ys \<Rightarrow> foldl (\<lambda>acc x. acc @ '','' @ x) y ys)"

text \<open>
  With LangChain the counts of the brief go into the chain's prompt, and whatever lists
  the chains answer are taken as they come. Without it the fallback client is called
  with the brief alone, so its own defaults \<open>num_headlines = 2\<close> and \<open>num_long = 1\<close> apply.
\<close>

definition copies_and_prompts :: "env \<Rightarrow> brief \<Rightarrow> error + json \<times> string list" where
  "copies_and_prompts ev b =
     (if langchain_available ev
      then (case lc_headlines ev (product b) (audience b) (tone b) (num_headlines b) of
              Inl e \<Rightarrow> Inl e
            | Inr headlines \<Rightarrow>
           (case lc_long ev (product b) (audience b) (tone b) (num_long b) of
              Inl e \<Rightarrow> Inl e
            | Inr long_copies \<Rightarrow>
                let copies = headlines @ long_copies
                in (case traverse (\<lambda>c. lc_prompt ev (product b) (audience b) (tone b) c
                                         (join_comma (platform b))) copies of
                      Inl e \<Rightarrow> Inl e
                    | Inr prompts \<Rightarrow> Inr (JList copies, prompts))))
      else (case generate_copy_variations ev b 2 1 of
              (headlines, long_copies) \<Rightarrow>
                (case py_add headlines long_copies of
                   Inl e \<Rightarrow> Inl e
                 | Inr copies \<Rightarrow>
                     (case generate_image_prompts b copies of
                        Inl e \<Rightarrow> Inl e
                      | Inr prompts \<Rightarrow> Inr (copies, prompts)))))"

subsection \<open>Images (lines 134-145)\<close>

definition gen_prompt :: "env \<Rightarrow> string \<Rightarrow> world \<Rightarrow> (error + json) \<times> world" where
  "gen_prompt ev p w =
     (case PromptCache_get ev w p of
        Inl e \<Rightarrow> (Inl e, w)
      | Inr cached \<Rightarrow>
          if truthy cached then (Inr cached, w)
          else (case generate_image ev w p of
                  (img, w1) \<Rightarrow>
                    (case PromptCache_set ev w1 p img of
                       (path, w2) \<Rightarrow> (Inr img, w2))))"

text \<open>
  \<open>asyncio.gather\<close> wraps each coroutine in a task and the event loop starts the tasks in
  the order of the list. A task keeps the loop until it awaits something that is not
  ready. \<open>gen_prompt\<close> awaits only \<open>generate_image\<close>, whose body contains no \<open>await\<close>:
  each task therefore runs from its cache lookup to its cache write as one step, and the
  batch is the sequence of these steps. A task that raises does not stop the others; the
  caller gets the first exception.
\<close>

fun gather :: "(world \<Rightarrow> (error + 'a) \<times> world) list \<Rightarrow> world \<Rightarrow> (error + 'a list) \<times> world" where
  "gather [] w = (Inr [], w)"
| "gather (t # ts) w =
     (case t w of
        (r, w1) \<Rightarrow>
          (case gather ts w1 of
             (rs, w2) \<Rightarrow>
               ((case r of
                   Inl e \<Rightarrow> Inl e
                 | Inr v \<Rightarrow> (case rs of Inl e \<Rightarrow> Inl e | Inr vs \<Rightarrow> Inr (v # vs))), w2)))"

subsection \<open>Scoring and ranking (lines 147-154)\<close>

definition score_pair :: "env \<Rightarrow> json \<Rightarrow> json \<Rightarrow> error + scored_asset" where
  "score_pair ev c img =
     (case py_getitem img ''path'' of
        Inl e \<Rightarrow> Inl e
      | Inr path \<Rightarrow>
          let s = CoherenceScorer_score ev c path
          in (case py_getitem img ''url'' of
                Inl e \<Rightarrow> Inl e
              | Inr url \<Rightarrow>
                  Inr \<lparr>copy = c, image_url = url, local_path = path, score = s\<rparr>))"

fun score_images :: "env \<Rightarrow> json \<Rightarrow> json list \<Rightarrow> error + scored_asset list" where
  "score_images ev c [] = Inr []"
| "score_images ev c (img # imgs) =
     (case score_pair ev c img of
        Inl e \<Rightarrow> Inl e
      | Inr a \<Rightarrow> (case score_images ev c imgs of Inl e \<Rightarrow> Inl e | Inr rs \<Rightarrow> Inr (a # rs)))"

fun score_copies :: "env \<Rightarrow> json list \<Rightarrow> json list \<Rightarrow> error + scored_asset list" where
  "score_copies ev [] imgs = Inr []"
| "score_copies ev (c # cs) imgs =
     (case score_images ev c imgs of
        Inl e \<Rightarrow> Inl e
      | Inr rs \<Rightarrow> (case score_copies ev cs imgs of Inl e \<Rightarrow> Inl e | Inr rs' \<Rightarrow> Inr (rs @ rs')))"

text \<open>
  \<open>sorted(xs, key=k, reverse=True)\<close>: the sort is stable and compares keys with \<open><\<close>
  only; with \<open>reverse=True\<close> the list is reversed, sorted and reversed again, which
  keeps elements of equal key in their original order.
\<close>

fun insort_lt :: "('a \<Rightarrow> pyfloat) \<Rightarrow> 'a \<Rightarrow> 'a list \<Rightarrow> 'a list" where
  "insort_lt k x [] = [x]"
| "insort_lt k x (y # ys) = (if pf_lt (k y) (k x) then y # insort_lt k x ys else x # y # ys)"

definition py_sorted :: "('a \<Rightarrow> pyfloat) \<Rightarrow> 'a list \<Rightarrow> 'a list" where
  "py_sorted k xs = foldr (insort_lt k) xs []"

definition py_sorted_reverse :: "('a \<Rightarrow> pyfloat) \<Rightarrow> 'a list \<Rightarrow> 'a list" where
  "py_sorted_reverse k xs = rev (py_sorted k (rev xs))"

definition top_assets :: "scored_asset list \<Rightarrow> scored_asset list" where
  "top_assets results = take 6 (py_sorted_reverse score results)"

subsection \<open>The run\<close>

record trace =
  copies :: "json list"
  prompts :: "string list"
  images :: "json list"
  results :: "scored_asset list"

definition pipeline :: "env \<Rightarrow> world \<Rightarrow> brief \<Rightarrow> (error + trace) \<times> world" where
  "pipeline ev w b =
     (case copies_and_prompts ev b of
        Inl e \<Rightarrow> (Inl e, w)
      | Inr (cps, ps) \<Rightarrow>
          (case gather (map (gen_prompt ev) ps) w of
             (Inl e, w') \<Rightarrow> (Inl e, w')
           | (Inr imgs, w') \<Rightarrow>
               (case py_iter cps of
                  Inl e \<Rightarrow> (Inl e, w')
                | Inr cs \<Rightarrow>
                    (case score_copies ev cs imgs of
                       Inl e \<Rightarrow> (Inl e, w')
                     | Inr rs \<Rightarrow>
                         (Inr \<lparr>copies = cs, prompts = ps, images = imgs, results = rs\<rparr>, w')))))"

definition run :: "env \<Rightarrow> world \<Rightarrow> brief \<Rightarrow> (error + scored_asset list) \<times> world" where
  "run ev w b =
     (case pipeline ev w b of
        (Inl e, w') \<Rightarrow> (Inl e, w')
      | (Inr t, w') \<Rightarrow> (Inr (top_assets (results t)), w'))"

section \<open>Observations used in the statements\<close>

text \<open>The value of a finite float.\<close>

definition fin_val :: "pyfloat \<Rightarrow> real" where
  "fin_val x = (case x of Fin r \<Rightarrow> r | _ \<Rightarrow> 0)"


text \<open>
  The sizes of a completed run: copies, distinct prompts, images, scored pairs.
\<close>

definition trace_sizes :: "(error + trace) \<times> world \<Rightarrow> (nat \<times> nat \<times> nat \<times> nat) option" where
  "trace_sizes r =
     (case fst r of
        Inl e \<Rightarrow> None
      | Inr t \<Rightarrow> Some (length (copies t), card (set (prompts t)), length (images t),
                        length (results t)))"

section \<open>Concrete runs\<close>

text \<open>
  Every backend offline: no API key, LangChain and CLIP not installed, the placeholder
  image provider.
\<close>

definition offline_env :: env where
  "offline_env =
     \<lparr>has_openai_key = False, langchain_available = False,
      chat_json = (\<lambda>s u. Inl BackendError),
      lc_headlines = (\<lambda>p a t n. Inl BackendError),
      lc_long = (\<lambda>p a t n. Inl BackendError),
      lc_prompt = (\<lambda>p a t c pl. Inl BackendError),
      cache_dir = ''./cache'', image_provider = ''placeholder'',
      openai_image_ok = (\<lambda>p. False), legacy_image_ok = (\<lambda>p. False),
      placeholder_ok = (\<lambda>n. True), uuid_hex12 = (\<lambda>n. ''00000000000'' @ str_nat n),
      out_dir = ''./outputs'', abspath = (\<lambda>p. ''/app/'' @ p),
      embedding_api = (\<lambda>t. Inl BackendError), clip_loaded = False,
      clip_encode = (\<lambda>p. Inl BackendError)\<rparr>"

text \<open>
  An API key is set and CLIP is installed, LangChain is not. The chat model answers with
  two headlines and one long copy; text embeddings have 1536 entries and CLIP embeddings
  512. The second environment differs from the first in the chat model's answer alone.
\<close>

definition online_env :: env where
  "online_env =
     offline_env
       \<lparr>has_openai_key := True,
        chat_json := (\<lambda>s u. Inr (JDict [(''headlines'', JList [JStr ''Dive in'', JStr ''Stay cool'']),
                                        (''long'', JList [JStr ''Aqua keeps you going.''])])),
        embedding_api := (\<lambda>t. Inr (replicate 1536 (Fin 0))),
        clip_loaded := True,
        clip_encode := (\<lambda>p. Inr (replicate 512 (Fin 0)))\<rparr>"

definition online_env' :: env where
  "online_env' =
     online_env
       \<lparr>chat_json := (\<lambda>s u. Inr (JDict [(''headlines'', JList [JStr ''Make waves'', JStr ''Pure splash'']),
                                        (''long'', JList [JStr ''Aqua is here.''])]))\<rparr>"

definition aqua_brief :: brief where
  "aqua_brief =
     \<lparr>product = ''Aqua'', audience = ''teens'', tone = ''fun'', goal = ''awareness'',
      platform = [''web''], extra = [], num_headlines = 3, num_long = 2\<rparr>"

definition aqua_prompt :: string where
  "aqua_prompt = image_prompt ''Aqua'' ''teens''"

definition aqua_image :: json where
  "aqua_image = image_dict offline_env 0 aqua_prompt"

definition empty_world :: world where
  "empty_world = \<lparr>files = Map.empty, render_log = [], write_log = []\<rparr>"

text \<open>The cache already holds the image of the prompt.\<close>

definition warm_world :: world where
  "warm_world =
     \<lparr>files = [PromptCache_key offline_env aqua_prompt \<mapsto> Doc aqua_image],
      render_log = [], write_log = []\<rparr>"

text \<open>The state after the offline run on the empty cache.\<close>

definition aqua_world :: world where
  "aqua_world =
     \<lparr>files = [PromptCache_key offline_env aqua_prompt \<mapsto> Doc aqua_image],
      render_log = [aqua_prompt], write_log = [aqua_prompt]\<rparr>"

definition aqua_asset :: "json \<Rightarrow> scored_asset" where
  "aqua_asset c =
     \<lparr>copy = c,
      image_url = JStr (''file://'' @ abspath offline_env
                         (path_join (out_dir offline_env) (uuid_hex12 offline_env 0 @ ''.png''))),
      local_path = JStr (path_join (out_dir offline_env) (uuid_hex12 offline_env 0 @ ''.png'')),
      score = CoherenceScorer_score offline_env c
                (JStr (path_join (out_dir offline_env) (uuid_hex12 offline_env 0 @ ''.png'')))\<rparr>"

definition aqua_trace :: trace where
  "aqua_trace =
     \<lparr>copies = [JStr ''Aqua - Unleash Energy #1'', JStr ''Aqua - Unleash Energy #2'',
                JStr ''Aqua long copy version 1''],
      prompts = [aqua_prompt, aqua_prompt, aqua_prompt],
      images = [aqua_image, aqua_image, aqua_image],
      results =
        [aqua_asset (JStr ''Aqua - Unleash Energy #1''), aqua_asset (JStr ''Aqua - Unleash Energy #1''),
         aqua_asset (JStr ''Aqua - Unleash Energy #1''), aqua_asset (JStr ''Aqua - Unleash Energy #2''),
         aqua_asset (JStr ''Aqua - Unleash Energy #2''), aqua_asset (JStr ''Aqua - Unleash Energy #2''),
         aqua_asset (JStr ''Aqua long copy version 1''), aqua_asset (JStr ''Aqua long copy version 1''),
         aqua_asset (JStr ''Aqua long copy version 1'')]\<rparr>"

text \<open>An asset of the cached image whose scoring failed.\<close>

definition cached_asset :: "json \<Rightarrow> scored_asset" where
  "cached_asset c =
     \<lparr>copy = c,
      image_url = JStr (''file://'' @ abspath offline_env
                         (path_join (out_dir offline_env) (uuid_hex12 offline_env 0 @ ''.png''))),
      local_path = JStr (path_join (out_dir offline_env) (uuid_hex12 offline_env 0 @ ''.png'')),
      score = Fin (4 / 10)\<rparr>"

definition asset_a :: scored_asset where
  "asset_a = \<lparr>copy = JStr ''A'', image_url = JStr ''u'', local_path = JStr ''p'', score = Fin (4 / 10)\<rparr>"

definition asset_b :: scored_asset where
  "asset_b = \<lparr>copy = JStr ''B'', image_url = JStr ''u'', local_path = JStr ''p'', score = Fin (9 / 10)\<rparr>"

definition asset_c :: scored_asset where
  "asset_c = \<lparr>copy = JStr ''C'', image_url = JStr ''u'', local_path = JStr ''p'', score = Fin (4 / 10)\<rparr>"

section \<open>Facts about the digest\<close>

lemma length_word_bytes: "length (word_bytes x) = 4"
  by (simp add: word_bytes_def)

lemma length_sha256: "length (sha256 m) = 32"
  by (simp add: sha256_def length_word_bytes split: prod.split)

lemma length_sha256_digest: "length (sha256_digest s) = 32"
  by (simp add: sha256_digest_def length_sha256)

lemma length_hex_of_bytes: "length (hex_of_bytes bs) = 2 * length bs"
  by (induction bs) (simp_all add: hex_of_bytes_def)

lemma hex_char_in: "d < 16 \<Longrightarrow> hex_char d \<in> set ''0123456789abcdef''"
  unfolding hex_char_def by (rule nth_mem) simp

lemma set_hex_of_bytes: "set (hex_of_bytes bs) \<subseteq> set ''0123456789abcdef''"
proof -
  have "hex_char (unat b div 16) \<in> set ''0123456789abcdef''" for b :: byte
  proof -
    have "unat b < 256" using unsigned_less [of b, where ?'a = nat] by simp
    then have "unat b div 16 < 16" by simp
    then show ?thesis by (rule hex_char_in)
  qed
  moreover have "hex_char (unat b mod 16) \<in> set ''0123456789abcdef''" for b :: byte
    by (rule hex_char_in) simp
  ultimately show ?thesis
    unfolding hex_of_bytes_def by (induction bs) auto
qed

text \<open>The digest of \<open>abc\<close>, as \<open>hashlib\<close> and FIPS 180-4 give it.\<close>

lemma sha256_abc:
  "sha256_hexdigest ''abc'' = ''ba7816bf8f01cfea414140de5dae2223b00361a396177a9cb410ff61f20015ad''"
  by code_simp

lemma fallback_embedding_eq:
  "fallback_embedding s = map (\<lambda>b. Fin (real (unat b))) (sha256_digest s) @ replicate 1504 (Fin 0)"
  by (simp add: fallback_embedding_def Let_def length_sha256_digest)

section \<open>Facts about the concrete runs\<close>

lemma offline_env_sel:
  "has_openai_key offline_env = False"
  "langchain_available offline_env = False"
  "cache_dir offline_env = ''./cache''"
  "image_provider offline_env = ''placeholder''"
  "placeholder_ok offline_env n = True"
  "out_dir offline_env = ''./outputs''"
  "embedding_api offline_env x = Inl BackendError"
  "clip_loaded offline_env = False"
  by (simp_all add: offline_env_def)

lemma online_env_sel:
  "has_openai_key online_env = True"
  "langchain_available online_env = False"
  "cache_dir online_env = ''./cache''"
  "embedding_api online_env x = Inr (replicate 1536 (Fin 0))"
  "clip_loaded online_env = True"
  "clip_encode online_env y = Inr (replicate 512 (Fin 0))"
  "chat_json online_env s u = Inr (JDict [(''headlines'', JList [JStr ''Dive in'', JStr ''Stay cool'']),
                                        (''long'', JList [JStr ''Aqua keeps you going.''])])"
  by (simp_all add: online_env_def offline_env_sel)

lemma online_env'_sel:
  "has_openai_key online_env' = True"
  "langchain_available online_env' = False"
  "cache_dir online_env' = ''./cache''"
  "embedding_api online_env' x = Inr (replicate 1536 (Fin 0))"
  "clip_loaded online_env' = True"
  "clip_encode online_env' y = Inr (replicate 512 (Fin 0))"
  "chat_json online_env' s u = Inr (JDict [(''headlines'', JList [JStr ''Make waves'', JStr ''Pure splash'']),
                                        (''long'', JList [JStr ''Aqua is here.''])])"
  by (simp_all add: online_env'_def online_env_sel)

lemma truthy_image_dict: "truthy (image_dict ev n p)"
  by (simp add: image_dict_def Let_def)

lemma truthy_aqua_image: "truthy aqua_image"
  by (simp add: aqua_image_def truthy_image_dict)

lemma offline_copies:
  "copies_and_prompts offline_env aqua_brief =
   Inr (JList [JStr ''Aqua - Unleash Energy #1'', JStr ''Aqua - Unleash Energy #2'',
               JStr ''Aqua long copy version 1''],
        [aqua_prompt, aqua_prompt, aqua_prompt])"
  by (simp add: copies_and_prompts_def offline_env_sel aqua_brief_def generate_copy_variations_def
       copy_variations_fallback_def headline_text_def long_text_def generate_image_prompts_def
       digit_char_def numeral_2_eq_2 upt_rec str_nat.simps aqua_prompt_def)

lemma online_copies:
  "copies_and_prompts online_env aqua_brief =
   Inr (JList [JStr ''Dive in'', JStr ''Stay cool'', JStr ''Aqua keeps you going.''],
        [aqua_prompt, aqua_prompt, aqua_prompt])"
  by (simp add: copies_and_prompts_def online_env_sel generate_copy_variations_def
       copy_variations_openai_def slice_to_def pad_items.simps generate_image_prompts_def
       aqua_prompt_def aqua_brief_def)

lemma online_copies':
  "copies_and_prompts online_env' aqua_brief =
   Inr (JList [JStr ''Make waves'', JStr ''Pure splash'', JStr ''Aqua is here.''],
        [aqua_prompt, aqua_prompt, aqua_prompt])"
  by (simp add: copies_and_prompts_def online_env'_sel generate_copy_variations_def
       copy_variations_openai_def slice_to_def pad_items.simps generate_image_prompts_def
       aqua_prompt_def aqua_brief_def)

lemma warm_get:
  "PromptCache_get offline_env warm_world aqua_prompt = Inr aqua_image"
  "PromptCache_get online_env warm_world aqua_prompt = Inr aqua_image"
  "PromptCache_get online_env' warm_world aqua_prompt = Inr aqua_image"
  by (simp_all add: PromptCache_get_def warm_world_def PromptCache_key_def online_env_sel
      online_env'_sel offline_env_sel)

section \<open>\<open>generate_copy_variations\<close> honours the counts it is given\<close>

lemma pad_items_len:
  "pad_items mk n xs = Inr ys \<Longrightarrow> py_len xs = Inr k \<Longrightarrow> int k \<le> n \<Longrightarrow> py_len ys = Inr (nat n)"
proof (induction mk n xs arbitrary: k rule: pad_items.induct)
  case (1 mk n xs)
  show ?case
  proof (cases "int k < n")
    case True
    from "1.prems"(1,2) True obtain xs' where app: "py_append xs (JStr (mk (k + 1))) = Inr xs'"
      and rec: "pad_items mk n xs' = Inr ys"
      by (subst (asm) pad_items.simps) (auto split: sum.splits)
    from app "1.prems"(2) have "py_len xs' = Inr (Suc k)" by (cases xs) auto
    from "1.IH" [OF "1.prems"(2) True app rec this] True show ?thesis by simp
  next
    case False
    with "1.prems" have "ys = xs" and "int k = n"
      by (subst (asm) pad_items.simps, simp)+
    with "1.prems"(2) show ?thesis by auto
  qed
qed

lemma py_slice_to_len:
  "0 \<le> n \<Longrightarrow> py_slice_to x n = Inr y \<Longrightarrow> \<exists>k. py_len y = Inr k \<and> int k \<le> n"
  by (cases x) (auto simp: slice_to_def)

text \<open>
  Called with counts \<open>nh\<close> and \<open>nlong\<close>, the client returns exactly that many headlines
  and long copies, with the backend or without it.
\<close>

lemma generate_copy_variations_lengths:
  assumes "0 \<le> nh" and "0 \<le> nlong" and "generate_copy_variations ev b nh nlong = (hs, ls)"
  shows "py_len hs = Inr (nat nh) \<and> py_len ls = Inr (nat nlong)"
proof (cases "has_openai_key ev \<and> (\<exists>r. copy_variations_openai ev b nh nlong = Inr r)")
  case True
  then have r: "copy_variations_openai ev b nh nlong = Inr (hs, ls)"
    using assms(3) by (auto simp: generate_copy_variations_def)
  then obtain h1 l1 where h1: "\<exists>k. py_len h1 = Inr k \<and> int k \<le> nh"
    and l1: "\<exists>k. py_len l1 = Inr k \<and> int k \<le> nlong"
    and ph: "pad_items (headline_text (product b)) nh h1 = Inr hs"
    and pl: "pad_items (long_text (product b)) nlong l1 = Inr ls"
    using py_slice_to_len [OF assms(1)] py_slice_to_len [OF assms(2)]
    by (fastforce simp: copy_variations_openai_def split: sum.splits)
  from h1 ph l1 pl show ?thesis by (auto dest: pad_items_len)
next
  case False
  then have "(hs, ls) = copy_variations_fallback b nh nlong"
    using assms(3) by (auto simp: generate_copy_variations_def split: sum.splits)
  then show ?thesis by (simp add: copy_variations_fallback_def)
qed

text \<open>Without LangChain the run does not read the counts of the brief.\<close>

lemma user_msg_counts:
  "user_msg (b\<lparr>num_headlines := h, num_long := l\<rparr>) x y = user_msg b x y"
  by (simp add: user_msg_def)

lemma openai_counts:
  "copy_variations_openai ev (b\<lparr>num_headlines := h, num_long := l\<rparr>) x y
     = copy_variations_openai ev b x y"
  by (simp add: copy_variations_openai_def user_msg_counts cong: sum.case_cong)

lemma fallback_counts:
  "copy_variations_fallback (b\<lparr>num_headlines := h, num_long := l\<rparr>) x y
     = copy_variations_fallback b x y"
  by (simp add: copy_variations_fallback_def)

lemma prompts_counts:
  "generate_image_prompts (b\<lparr>num_headlines := h, num_long := l\<rparr>) c = generate_image_prompts b c"
  by (simp add: generate_image_prompts_def cong: sum.case_cong)

lemma fallback_counts_ignored:
  "\<not> langchain_available ev
   \<Longrightarrow> copies_and_prompts ev (b\<lparr>num_headlines := h, num_long := l\<rparr>) = copies_and_prompts ev b"
  by (simp add: copies_and_prompts_def generate_copy_variations_def openai_counts fallback_counts
      prompts_counts cong: sum.case_cong prod.case_cong)

text \<open>
  Claim C1. The brief asks for three headlines and two long copies; every backend is
  offline. The copy step of the run returns two headlines and one long copy: \<open>run\<close> calls
  \<open>generate_copy_variations(brief)\<close> without the counts, so the defaults 2 and 1 apply.
\<close>

theorem run_ignores_brief_counts:
  "num_headlines aqua_brief = 3 \<and> num_long aqua_brief = 2
   \<and> generate_copy_variations offline_env aqua_brief 2 1
       = (JList [JStr ''Aqua - Unleash Energy #1'', JStr ''Aqua - Unleash Energy #2''],
          JList [JStr ''Aqua long copy version 1''])
   \<and> copies_and_prompts offline_env aqua_brief
       = Inr (JList [JStr ''Aqua - Unleash Energy #1'', JStr ''Aqua - Unleash Energy #2'',
                     JStr ''Aqua long copy version 1''],
              [aqua_prompt, aqua_prompt, aqua_prompt])"
proof -
  have "generate_copy_variations offline_env aqua_brief 2 1
       = (JList [JStr ''Aqua - Unleash Energy #1'', JStr ''Aqua - Unleash Energy #2''],
          JList [JStr ''Aqua long copy version 1''])"
    by (simp add: offline_env_sel aqua_brief_def generate_copy_variations_def
       copy_variations_fallback_def headline_text_def long_text_def
       digit_char_def numeral_2_eq_2 upt_rec str_nat.simps)
  with offline_copies show ?thesis by (simp add: aqua_brief_def)
qed

section \<open>The image prompts\<close>

text \<open>
  Claim C10. The fallback client answers a list of copies with as many prompts, all of
  them the same text, which is built from the product and the audience of the brief and
  from nothing else: not from the copy, nor from any other field.
\<close>

theorem generate_image_prompts_constant:
  "generate_image_prompts b (JList cs)
     = Inr (replicate (length cs) (image_prompt (product b) (audience b)))"
  by (simp add: generate_image_prompts_def map_replicate_const)

section \<open>The cache\<close>




text \<open>
  Claim C5. The cache key of a prompt is the cache directory joined with the SHA-256 hex
  digest of the prompt's UTF-8 bytes and the suffix \<open>.json\<close>: 64 characters out of
  \<open>0-9a-f\<close>. Nothing else enters it, so that two processes configured with the same
  cache directory derive the same key from the same prompt.
\<close>

theorem PromptCache_key_sha256:
  assumes "cache_dir ev1 = cache_dir ev2"
  shows "PromptCache_key ev1 p = PromptCache_key ev2 p
       \<and> PromptCache_key ev1 p
           = path_join (cache_dir ev1) (hex_of_bytes (sha256 (encode_utf8 p)) @ ''.json'')
       \<and> length (hex_of_bytes (sha256 (encode_utf8 p))) = 64
       \<and> set (hex_of_bytes (sha256 (encode_utf8 p))) \<subseteq> set ''0123456789abcdef''"
proof (intro conjI)
  show "PromptCache_key ev1 p = PromptCache_key ev2 p"
    using assms by (simp add: PromptCache_key_def)
  show "PromptCache_key ev1 p
          = path_join (cache_dir ev1) (hex_of_bytes (sha256 (encode_utf8 p)) @ ''.json'')"
    by (simp add: PromptCache_key_def sha256_hexdigest_def sha256_digest_def)
  show "length (hex_of_bytes (sha256 (encode_utf8 p))) = 64"
    by (simp add: length_hex_of_bytes length_sha256)
  show "set (hex_of_bytes (sha256 (encode_utf8 p))) \<subseteq> set ''0123456789abcdef''"
    by (rule set_hex_of_bytes)
qed

theorem PromptCache_key_sha256_witness:
  "cache_dir offline_env = cache_dir online_env
   \<and> PromptCache_key offline_env aqua_prompt = PromptCache_key online_env aqua_prompt
   \<and> PromptCache_key offline_env aqua_prompt
       = path_join (cache_dir offline_env) (hex_of_bytes (sha256 (encode_utf8 aqua_prompt)) @ ''.json'')
   \<and> length (hex_of_bytes (sha256 (encode_utf8 aqua_prompt))) = 64"
proof -
  have cd: "cache_dir offline_env = cache_dir online_env"
    by (simp add: offline_env_sel online_env_sel)
  from PromptCache_key_sha256 [OF cd, of aqua_prompt] cd show ?thesis by blast
qed

section \<open>The scorer\<close>

lemma clamp_unit: "\<exists>r. py_max (Fin 0) (py_min (Fin 1) x) = Fin r \<and> 0 \<le> r \<and> r \<le> 1"
  by (cases x) (auto simp: py_max_def py_min_def)

lemma score_try_unit:
  assumes "score_try ev text img = Inr s"
  shows "\<exists>r. s = Fin r \<and> 0 \<le> r \<and> r \<le> 1"
proof -
  from assms obtain x where "s = py_max (Fin 0) (py_min (Fin 1) x)"
    unfolding score_try_def Let_def
    by (simp split: sum.splits) blast
  with clamp_unit [of x] show ?thesis by simp
qed

lemma score_unit: "\<exists>r. CoherenceScorer_score ev text img = Fin r \<and> 0 \<le> r \<and> r \<le> 1"
proof (cases "score_try ev text img")
  case (Inl e)
  then have "CoherenceScorer_score ev text img = Fin (4 / 10)"
    by (simp add: CoherenceScorer_score_def)
  moreover have "(0::real) \<le> 4 / 10 \<and> (4::real) / 10 \<le> 1" by simp
  ultimately show ?thesis by blast
next
  case (Inr s)
  with score_try_unit [OF Inr] show ?thesis by (simp add: CoherenceScorer_score_def)
qed

lemma online_score_try: "score_try online_env c p = Inl ValueError"
  by (simp add: score_try_def text_embedding_def image_embedding_clip_def
      np_dot_def online_env_sel Let_def)

lemma online_score:
  "CoherenceScorer_score online_env c p = Fin (4 / 10)"
  "CoherenceScorer_score online_env' c p = Fin (4 / 10)"
  by (simp_all add: CoherenceScorer_score_def score_try_def text_embedding_def
      image_embedding_clip_def np_dot_def online_env_sel online_env'_sel Let_def)

text \<open>
  Claim C6. For every text and every image path the score is a finite number between 0
  and 1, NaN and infinite similarities included; and when anything in the computation
  raises, the score is 0.4.
\<close>

theorem score_in_unit_interval:
  "(\<exists>r. CoherenceScorer_score ev text img = Fin r \<and> 0 \<le> r \<and> r \<le> 1)
   \<and> (score_try ev text img = Inl e \<longrightarrow> CoherenceScorer_score ev text img = Fin (4 / 10))"
  using score_unit [of ev "text" img] by (simp add: CoherenceScorer_score_def)

theorem score_in_unit_interval_witness:
  "score_try online_env (JStr ''Dive in'') (JStr ''x.png'') = Inl ValueError
   \<and> CoherenceScorer_score online_env (JStr ''Dive in'') (JStr ''x.png'') = Fin (4 / 10)"
  using score_in_unit_interval [of online_env "JStr ''Dive in''" "JStr ''x.png''" ValueError]
    online_score_try [of "JStr ''Dive in''" "JStr ''x.png''"]
  by simp

text \<open>
  Claim C7. When the embedding backend fails, the embedding of a text is the 32 bytes of
  the SHA-256 digest of its UTF-8 encoding, each read as a number, followed by 1504
  zeros: 1536 entries, the same in every environment.
\<close>

theorem text_embedding_fallback:
  assumes "embedding_api ev1 (JStr s) = Inl e1" and "embedding_api ev2 (JStr s) = Inl e2"
  shows "text_embedding ev1 (JStr s)
           = Inr (map (\<lambda>b. Fin (real (unat b))) (sha256 (encode_utf8 s)) @ replicate 1504 (Fin 0))
       \<and> text_embedding ev2 (JStr s) = text_embedding ev1 (JStr s)
       \<and> length (map (\<lambda>b. Fin (real (unat b))) (sha256 (encode_utf8 s)) @ replicate 1504 (Fin 0)) = 1536
       \<and> length (sha256 (encode_utf8 s)) = 32"
  using assms
  by (simp add: text_embedding_def fallback_embedding_eq sha256_digest_def length_sha256)

theorem text_embedding_fallback_witness:
  "embedding_api offline_env (JStr ''abc'') = Inl BackendError
   \<and> embedding_api (offline_env\<lparr>clip_loaded := True\<rparr>) (JStr ''abc'') = Inl BackendError
   \<and> text_embedding offline_env (JStr ''abc'')
       = Inr (map (\<lambda>b. Fin (real (unat b))) (sha256 (encode_utf8 ''abc'')) @ replicate 1504 (Fin 0))
   \<and> text_embedding (offline_env\<lparr>clip_loaded := True\<rparr>) (JStr ''abc'')
       = text_embedding offline_env (JStr ''abc'')"
proof -
  have a: "embedding_api offline_env (JStr ''abc'') = Inl BackendError"
    by (simp add: offline_env_sel)
  have b: "embedding_api (offline_env\<lparr>clip_loaded := True\<rparr>) (JStr ''abc'') = Inl BackendError"
    by (simp add: offline_env_sel)
  from text_embedding_fallback [OF a b] a b show ?thesis by simp
qed

section \<open>The render batch\<close>




lemma gen_prompt_hit:
  "PromptCache_get ev w p = Inr v \<Longrightarrow> truthy v \<Longrightarrow> gen_prompt ev p w = (Inr v, w)"
  by (simp add: gen_prompt_def)





lemma gather_length: "gather ts w = (Inr vs, w') \<Longrightarrow> length vs = length ts"
proof (induction ts arbitrary: w vs w')
  case Nil
  then show ?case by simp
next
  case (Cons t ts)
  obtain r w1 where t: "t w = (r, w1)" by (cases "t w")
  obtain rs w2 where g: "gather ts w1 = (rs, w2)" by (cases "gather ts w1")
  from Cons.prems t g obtain v vs' where "rs = Inr vs'" and "vs = v # vs'"
    by (auto split: sum.splits)
  with Cons.IH [of w1 vs' w2] g show ?case by simp
qed

text \<open>When every prompt of a batch is cached, the batch returns the cached images and changes nothing.\<close>

lemma gather_warm:
  assumes "\<forall>p\<in>set ps. \<exists>v. PromptCache_get ev w p = Inr v \<and> truthy v"
  shows "gather (map (gen_prompt ev) ps) w = (Inr (map (\<lambda>p. projr (PromptCache_get ev w p)) ps), w)"
  using assms
proof (induction ps)
  case Nil
  then show ?case by simp
next
  case (Cons p ps)
  then obtain v where v: "PromptCache_get ev w p = Inr v" "truthy v" by auto
  then have "gen_prompt ev p w = (Inr v, w)" by (simp add: gen_prompt_hit)
  with Cons v show ?case by simp
qed




section \<open>Scoring\<close>

lemma score_images_pairs:
  assumes "score_images ev c imgs = Inr rs"
  shows "length rs = length imgs \<and> (\<forall>j<length imgs. score_pair ev c (imgs ! j) = Inr (rs ! j))"
  using assms
proof (induction imgs arbitrary: rs)
  case Nil
  then show ?case by simp
next
  case (Cons img imgs)
  from Cons.prems obtain a rs' where a: "score_pair ev c img = Inr a"
    and r: "score_images ev c imgs = Inr rs'" and rs: "rs = a # rs'"
    by (auto split: sum.splits)
  from Cons.IH [OF r] a rs show ?case by (auto simp: nth_Cons split: nat.split)
qed

lemma score_copies_pairs:
  assumes "score_copies ev cs imgs = Inr rs"
  shows "length rs = length cs * length imgs
       \<and> (\<forall>i<length cs. \<forall>j<length imgs.
             score_pair ev (cs ! i) (imgs ! j) = Inr (rs ! (i * length imgs + j)))"
  using assms
proof (induction cs arbitrary: rs)
  case Nil
  then show ?case by simp
next
  case (Cons c cs)
  from Cons.prems obtain r0 rs' where r0: "score_images ev c imgs = Inr r0"
    and r: "score_copies ev cs imgs = Inr rs'" and rs: "rs = r0 @ rs'"
    by (auto split: sum.splits)
  from score_images_pairs [OF r0]
  have l0: "length r0 = length imgs"
    and p0: "\<And>j. j < length imgs \<Longrightarrow> score_pair ev c (imgs ! j) = Inr (r0 ! j)" by auto
  from Cons.IH [OF r]
  have l1: "length rs' = length cs * length imgs"
    and p1: "\<And>i j. i < length cs \<Longrightarrow> j < length imgs
               \<Longrightarrow> score_pair ev (cs ! i) (imgs ! j) = Inr (rs' ! (i * length imgs + j))" by auto
  have "score_pair ev ((c # cs) ! i) (imgs ! j) = Inr (rs ! (i * length imgs + j))"
    if i: "i < length (c # cs)" and j: "j < length imgs" for i j
  proof (cases i)
    case 0
    with p0 [OF j] j l0 rs show ?thesis by (simp add: nth_append)
  next
    case (Suc i')
    with i have "i' < length cs" by simp
    from p1 [OF this j] Suc l0 rs show ?thesis by (simp add: nth_append)
  qed
  with l0 l1 rs show ?case by simp
qed

lemma aqua_gather:
  "gather (map (gen_prompt offline_env) [aqua_prompt, aqua_prompt, aqua_prompt]) empty_world
     = (Inr [aqua_image, aqua_image, aqua_image], aqua_world)"
  by (simp add: gen_prompt_def PromptCache_get_def PromptCache_set_def generate_image_def
      placeholder_image_def empty_world_def Let_def offline_env_sel truthy_image_dict
      aqua_image_def aqua_world_def)

lemma aqua_score_pair: "score_pair offline_env c aqua_image = Inr (aqua_asset c)"
  by (simp add: score_pair_def aqua_image_def image_dict_def Let_def aqua_asset_def)

lemma aqua_pipeline: "pipeline offline_env empty_world aqua_brief = (Inr aqua_trace, aqua_world)"
proof -
  have "pipeline offline_env empty_world aqua_brief
          = (case score_copies offline_env (copies aqua_trace) (images aqua_trace) of
               Inl e \<Rightarrow> (Inl e, aqua_world)
             | Inr rs \<Rightarrow>
                 (Inr \<lparr>copies = copies aqua_trace, prompts = prompts aqua_trace,
                       images = images aqua_trace, results = rs\<rparr>, aqua_world))"
    by (simp only: pipeline_def offline_copies aqua_gather sum.case prod.case py_iter.simps
        aqua_trace_def trace.simps)
  also have "score_copies offline_env (copies aqua_trace) (images aqua_trace) = Inr (results aqua_trace)"
    by (simp add: aqua_trace_def aqua_score_pair)
  finally show ?thesis by (simp add: aqua_trace_def)
qed

text \<open>
  Claim C2, as stated, at the offline run of a brief with three headlines and two long
  copies requested: the run has 3 copies, not 5, and one distinct prompt, and it scores
  9 pairs, not 5.
\<close>

theorem offline_run_sizes:
  "num_headlines aqua_brief = 3 \<and> num_long aqua_brief = 2
   \<and> trace_sizes (pipeline offline_env empty_world aqua_brief) = Some (3, 1, 3, 9)"
proof -
  have "trace_sizes (pipeline offline_env empty_world aqua_brief) = Some (3, 1, 3, 9)"
    by (simp add: trace_sizes_def aqua_pipeline aqua_trace_def)
  then show ?thesis by (simp add: aqua_brief_def)
qed

text \<open>
  Claim C2, amended. In every run that completes, one image is resolved for each
  synthesized prompt, repeated prompts included, and the scoring stage produces exactly
  (number of copies) times (number of prompts) entries: the entry at position
  \<open>i * (number of images) + j\<close> is the scored pair of copy \<open>i\<close> and image \<open>j\<close>.
\<close>

theorem pipeline_cross_product:
  assumes "pipeline ev w b = (Inr t, w')"
  shows "length (images t) = length (prompts t)
       \<and> length (results t) = length (copies t) * length (prompts t)
       \<and> (\<forall>i<length (copies t). \<forall>j<length (images t).
             score_pair ev (copies t ! i) (images t ! j)
               = Inr (results t ! (i * length (images t) + j)))"
proof -
  from assms obtain cps ps where cp: "copies_and_prompts ev b = Inr (cps, ps)"
    by (auto simp: pipeline_def split: sum.splits)
  obtain r w1 where g: "gather (map (gen_prompt ev) ps) w = (r, w1)"
    by (cases "gather (map (gen_prompt ev) ps) w")
  from assms cp g obtain imgs where r: "r = Inr imgs"
    by (auto simp: pipeline_def split: sum.splits)
  from assms cp g r obtain cs where it: "py_iter cps = Inr cs"
    by (auto simp: pipeline_def split: sum.splits)
  from assms cp g r it obtain rs where sc: "score_copies ev cs imgs = Inr rs"
    and t: "t = \<lparr>copies = cs, prompts = ps, images = imgs, results = rs\<rparr>"
    by (auto simp: pipeline_def split: sum.splits)
  from gather_length [of "map (gen_prompt ev) ps" w imgs w1] g r
  have li: "length imgs = length ps" by simp
  from score_copies_pairs [OF sc] li t show ?thesis by simp
qed

theorem pipeline_cross_product_witness:
  "pipeline offline_env empty_world aqua_brief = (Inr aqua_trace, aqua_world)
   \<and> length (images aqua_trace) = 3 \<and> length (prompts aqua_trace) = 3
   \<and> length (copies aqua_trace) = 3 \<and> length (results aqua_trace) = 9
   \<and> score_pair offline_env (copies aqua_trace ! 2) (images aqua_trace ! 1)
       = Inr (results aqua_trace ! 7)"
proof -
  from pipeline_cross_product [OF aqua_pipeline]
  have l: "length (images aqua_trace) = length (prompts aqua_trace)"
    and r: "length (results aqua_trace) = length (copies aqua_trace) * length (prompts aqua_trace)"
    and p: "\<And>i j. i < length (copies aqua_trace) \<Longrightarrow> j < length (images aqua_trace)
             \<Longrightarrow> score_pair offline_env (copies aqua_trace ! i) (images aqua_trace ! j)
                   = Inr (results aqua_trace ! (i * length (images aqua_trace) + j))"
    by auto
  have n: "length (copies aqua_trace) = 3" "length (prompts aqua_trace) = 3"
    by (simp_all add: aqua_trace_def)
  from p [of 2 1] l r n aqua_pipeline show ?thesis by simp
qed

text \<open>Every score of a completed run is a finite number between 0 and 1.\<close>

lemma pipeline_scores_finite:
  assumes "pipeline ev w b = (Inr t, w')" and "a \<in> set (results t)"
  shows "\<exists>r. score a = Fin r \<and> 0 \<le> r \<and> r \<le> 1"
proof -
  from assms obtain cps ps imgs cs where sc: "score_copies ev cs imgs = Inr (results t)"
    by (auto simp: pipeline_def split: sum.splits prod.splits)
  from assms(2) obtain k where k: "k < length (results t)" and a: "a = results t ! k"
    by (auto simp: in_set_conv_nth)
  from score_copies_pairs [OF sc]
  have len: "length (results t) = length cs * length imgs"
    and p: "\<And>i j. i < length cs \<Longrightarrow> j < length imgs
              \<Longrightarrow> score_pair ev (cs ! i) (imgs ! j) = Inr (results t ! (i * length imgs + j))"
    by auto
  from k len have pos: "0 < length imgs" by (cases "length imgs") auto
  from k len pos have i: "k div length imgs < length cs"
    by (simp add: less_mult_imp_div_less)
  from pos have j: "k mod length imgs < length imgs" by simp
  from p [OF i j] a have "score_pair ev (cs ! (k div length imgs)) (imgs ! (k mod length imgs)) = Inr a"
    by simp
  then obtain c pth where "score a = CoherenceScorer_score ev c pth"
    by (auto simp: score_pair_def Let_def split: sum.splits)
  with score_unit [of ev c pth] show ?thesis by simp
qed

section \<open>Ranking\<close>

lemma insort_lt_insort_key:
  assumes "\<exists>r. k x = Fin r" and "\<forall>y\<in>set ys. \<exists>r. k y = Fin r"
  shows "insort_lt k x ys = insort_key (\<lambda>a. fin_val (k a)) x ys"
  using assms by (induction ys) (auto simp: fin_val_def)

lemma py_sorted_sort_key:
  assumes "\<forall>y\<in>set xs. \<exists>r. k y = Fin r"
  shows "py_sorted k xs = sort_key (\<lambda>a. fin_val (k a)) xs"
  using assms
proof (induction xs)
  case Nil
  then show ?case by (simp add: py_sorted_def)
next
  case (Cons x xs)
  then have ih: "py_sorted k xs = sort_key (\<lambda>a. fin_val (k a)) xs" by simp
  have "py_sorted k (x # xs) = insort_lt k x (py_sorted k xs)" by (simp add: py_sorted_def)
  also have "\<dots> = insort_key (\<lambda>a. fin_val (k a)) x (py_sorted k xs)"
    using Cons.prems by (intro insort_lt_insort_key) (simp_all add: ih)
  finally show ?case by (simp add: ih)
qed

lemma py_sorted_reverse_sort_key:
  assumes "\<forall>y\<in>set xs. \<exists>r. k y = Fin r"
  shows "py_sorted_reverse k xs = rev (sort_key (\<lambda>a. fin_val (k a)) (rev xs))"
  using assms by (simp add: py_sorted_reverse_def py_sorted_sort_key)

lemma top_equal_scores:
  "top_assets (map cached_asset [a, a, a, b, b, b, c, c, c]) = map cached_asset [a, a, a, b, b, b]"
  by (simp add: top_assets_def py_sorted_reverse_def py_sorted_def cached_asset_def)

text \<open>
  Claim C8. For every list of scored assets (with finite scores, as the scorer gives
  them) the result of the run is the first \<open>min 6 total\<close> entries of the sorted list,
  and the sorted list is a rearrangement of the input in which no entry is followed by
  one of a higher score and in which the entries of any one score keep the order they
  had in the input.
\<close>

theorem top_assets_sorted_prefix:
  assumes fin: "\<forall>a\<in>set rs. \<exists>r. score a = Fin r"
  shows "top_assets rs = take (min 6 (length rs)) (py_sorted_reverse score rs)
       \<and> length (top_assets rs) = min 6 (length rs)
       \<and> mset (py_sorted_reverse score rs) = mset rs
       \<and> sorted_wrt (\<lambda>a b. \<not> pf_lt (score a) (score b)) (py_sorted_reverse score rs)
       \<and> (\<forall>k. filter (\<lambda>a. score a = k) (py_sorted_reverse score rs) = filter (\<lambda>a. score a = k) rs)"
proof -
  let ?f = "\<lambda>a. fin_val (score a)"
  let ?S = "py_sorted_reverse score rs"
  have S: "?S = rev (sort_key ?f (rev rs))"
    using fin by (rule py_sorted_reverse_sort_key)
  have len: "length ?S = length rs" by (simp add: S)
  have perm: "mset ?S = mset rs" by (simp add: S)
  have setS: "set ?S = set rs" by (simp add: S)
  have "sorted (map ?f (sort_key ?f (rev rs)))" by (rule sorted_sort_key)
  then have "sorted_wrt (\<lambda>a b. ?f a \<le> ?f b) (sort_key ?f (rev rs))"
    by (simp add: sorted_wrt_map)
  then have "sorted_wrt (\<lambda>a b. ?f b \<le> ?f a) ?S"
    by (simp add: S sorted_wrt_rev)
  then have desc: "sorted_wrt (\<lambda>a b. \<not> pf_lt (score a) (score b)) ?S"
  proof (rule sorted_wrt_mono_rel [rotated])
    fix a b assume "a \<in> set ?S" and "b \<in> set ?S" and le: "?f b \<le> ?f a"
    with setS fin obtain x y where "score a = Fin x" and "score b = Fin y" by blast
    with le show "\<not> pf_lt (score a) (score b)" by (simp add: fin_val_def)
  qed
  have stable: "filter (\<lambda>a. score a = k) ?S = filter (\<lambda>a. score a = k) rs" for k
  proof (cases "\<exists>x. k = Fin x")
    case True
    then obtain x where kx: "k = Fin x" by blast
    have eq: "\<And>a. a \<in> set rs \<Longrightarrow> (score a = k) = (?f a = x)"
      using fin kx by (auto simp: fin_val_def)
    have "filter (\<lambda>a. score a = k) ?S = filter (\<lambda>a. ?f a = x) ?S"
      using eq setS by (intro filter_cong) auto
    also have "\<dots> = rev (filter (\<lambda>a. ?f a = x) (sort_key ?f (rev rs)))"
      by (simp add: S rev_filter)
    also have "\<dots> = rev (filter (\<lambda>a. ?f a = x) (rev rs))"
      by (simp only: sort_key_stable)
    also have "\<dots> = filter (\<lambda>a. ?f a = x) rs" by (simp add: rev_filter)
    also have "\<dots> = filter (\<lambda>a. score a = k) rs"
      using eq by (intro filter_cong) auto
    finally show ?thesis .
  next
    case False
    have "\<And>a. a \<in> set rs \<Longrightarrow> score a \<noteq> k" using fin False by metis
    then show ?thesis using setS by (simp add: filter_False)
  qed
  have pre: "take 6 ?S = take (min 6 (length rs)) ?S"
    using len by (cases "length rs \<le> 6") (simp_all add: min_def)
  have len_top: "length (take 6 ?S) = min 6 (length rs)"
    using len by (simp add: min.commute)
  from pre len_top perm desc stable show ?thesis
    unfolding top_assets_def by blast
qed

theorem top_assets_sorted_prefix_witness:
  "score asset_a = Fin (4 / 10) \<and> score asset_b = Fin (9 / 10) \<and> score asset_c = Fin (4 / 10)
   \<and> top_assets [asset_a, asset_b, asset_c] = [asset_b, asset_a, asset_c]
   \<and> length (top_assets [asset_a, asset_b, asset_c]) = 3
   \<and> mset (py_sorted_reverse score [asset_a, asset_b, asset_c]) = mset [asset_a, asset_b, asset_c]
   \<and> filter (\<lambda>a. score a = Fin (4 / 10)) (py_sorted_reverse score [asset_a, asset_b, asset_c])
       = [asset_a, asset_c]"
proof -
  have s: "score asset_a = Fin (4 / 10)" "score asset_b = Fin (9 / 10)" "score asset_c = Fin (4 / 10)"
    by (simp_all add: asset_a_def asset_b_def asset_c_def)
  have "\<exists>r. score asset_a = Fin r" "\<exists>r. score asset_b = Fin r" "\<exists>r. score asset_c = Fin r"
    using s by blast+
  then have fin: "\<forall>a\<in>set [asset_a, asset_b, asset_c]. \<exists>r. score a = Fin r" by simp
  have e: "py_sorted_reverse score [asset_a, asset_b, asset_c] = [asset_b, asset_a, asset_c]"
    by (simp add: py_sorted_reverse_def py_sorted_def s)
  from top_assets_sorted_prefix [OF fin] s e show ?thesis by simp
qed

section \<open>Two runs on a warm cache\<close>

lemma online_gather:
  "gather (map (gen_prompt online_env) [aqua_prompt, aqua_prompt, aqua_prompt]) warm_world
     = (Inr [aqua_image, aqua_image, aqua_image], warm_world)"
  "gather (map (gen_prompt online_env') [aqua_prompt, aqua_prompt, aqua_prompt]) warm_world
     = (Inr [aqua_image, aqua_image, aqua_image], warm_world)"
  by (simp_all add: gen_prompt_hit [OF warm_get(2) truthy_aqua_image]
      gen_prompt_hit [OF warm_get(3) truthy_aqua_image])

lemma online_score_pair:
  "score_pair online_env c aqua_image = Inr (cached_asset c)"
  "score_pair online_env' c aqua_image = Inr (cached_asset c)"
  by (simp_all add: score_pair_def aqua_image_def image_dict_def Let_def cached_asset_def
      online_score)

lemma online_pipeline:
  "pipeline online_env warm_world aqua_brief
     = (Inr \<lparr>copies = [JStr ''Dive in'', JStr ''Stay cool'', JStr ''Aqua keeps you going.''],
             prompts = [aqua_prompt, aqua_prompt, aqua_prompt],
             images = [aqua_image, aqua_image, aqua_image],
             results = map cached_asset
               [JStr ''Dive in'', JStr ''Dive in'', JStr ''Dive in'',
                JStr ''Stay cool'', JStr ''Stay cool'', JStr ''Stay cool'',
                JStr ''Aqua keeps you going.'', JStr ''Aqua keeps you going.'',
                JStr ''Aqua keeps you going.'']\<rparr>, warm_world)"
proof -
  have "pipeline online_env warm_world aqua_brief
       = (case score_copies online_env
                 [JStr ''Dive in'', JStr ''Stay cool'', JStr ''Aqua keeps you going.'']
                 [aqua_image, aqua_image, aqua_image] of
            Inl e \<Rightarrow> (Inl e, warm_world)
          | Inr rs \<Rightarrow>
              (Inr \<lparr>copies = [JStr ''Dive in'', JStr ''Stay cool'', JStr ''Aqua keeps you going.''],
                    prompts = [aqua_prompt, aqua_prompt, aqua_prompt],
                    images = [aqua_image, aqua_image, aqua_image], results = rs\<rparr>, warm_world))"
    by (simp only: pipeline_def online_copies online_gather sum.case prod.case py_iter.simps)
  then show ?thesis by (simp add: online_score_pair)
qed

lemma online_pipeline':
  "pipeline online_env' warm_world aqua_brief
     = (Inr \<lparr>copies = [JStr ''Make waves'', JStr ''Pure splash'', JStr ''Aqua is here.''],
             prompts = [aqua_prompt, aqua_prompt, aqua_prompt],
             images = [aqua_image, aqua_image, aqua_image],
             results = map cached_asset
               [JStr ''Make waves'', JStr ''Make waves'', JStr ''Make waves'',
                JStr ''Pure splash'', JStr ''Pure splash'', JStr ''Pure splash'',
                JStr ''Aqua is here.'', JStr ''Aqua is here.'', JStr ''Aqua is here.'']\<rparr>,
        warm_world)"
proof -
  have "pipeline online_env' warm_world aqua_brief
       = (case score_copies online_env'
                 [JStr ''Make waves'', JStr ''Pure splash'', JStr ''Aqua is here.'']
                 [aqua_image, aqua_image, aqua_image] of
            Inl e \<Rightarrow> (Inl e, warm_world)
          | Inr rs \<Rightarrow>
              (Inr \<lparr>copies = [JStr ''Make waves'', JStr ''Pure splash'', JStr ''Aqua is here.''],
                    prompts = [aqua_prompt, aqua_prompt, aqua_prompt],
                    images = [aqua_image, aqua_image, aqua_image], results = rs\<rparr>, warm_world))"
    by (simp only: pipeline_def online_copies' online_gather sum.case prod.case py_iter.simps)
  then show ?thesis by (simp add: online_score_pair)
qed

text \<open>
  Claim C9, as stated, at two runs of one brief on a warm cache, between which the chat
  model answers differently (it is sampled at temperature 0.9): both runs reuse the
  cached image and leave the cache as it is, and their results differ in every copy.
\<close>

theorem warm_runs_differ:
  "run online_env warm_world aqua_brief
     = (Inr (map cached_asset [JStr ''Dive in'', JStr ''Dive in'', JStr ''Dive in'',
                               JStr ''Stay cool'', JStr ''Stay cool'', JStr ''Stay cool'']),
        warm_world)
   \<and> run online_env' warm_world aqua_brief
     = (Inr (map cached_asset [JStr ''Make waves'', JStr ''Make waves'', JStr ''Make waves'',
                               JStr ''Pure splash'', JStr ''Pure splash'', JStr ''Pure splash'']),
        warm_world)
   \<and> fst (run online_env warm_world aqua_brief) \<noteq> fst (run online_env' warm_world aqua_brief)"
proof -
  have r: "run online_env warm_world aqua_brief
     = (Inr (map cached_asset [JStr ''Dive in'', JStr ''Dive in'', JStr ''Dive in'',
                               JStr ''Stay cool'', JStr ''Stay cool'', JStr ''Stay cool'']),
        warm_world)"
    unfolding run_def online_pipeline
    by (simp only: prod.case sum.case trace.simps top_equal_scores)
  have r': "run online_env' warm_world aqua_brief
     = (Inr (map cached_asset [JStr ''Make waves'', JStr ''Make waves'', JStr ''Make waves'',
                               JStr ''Pure splash'', JStr ''Pure splash'', JStr ''Pure splash'']),
        warm_world)"
    unfolding run_def online_pipeline'
    by (simp only: prod.case sum.case trace.simps top_equal_scores)
  show ?thesis unfolding r r' by (simp add: cached_asset_def)
qed

text \<open>
  Claim C9, amended. When the backends answer a second run as they answered the first,
  a run whose prompts are all cached renders nothing and leaves the cache and the logs
  as they were; the images are the cached ones; and running again from the state it
  leaves gives the same result.
\<close>

theorem warm_run_idempotent:
  assumes cp: "copies_and_prompts ev b = Inr (cps, ps)"
    and warm: "\<forall>p\<in>set ps. \<exists>v. PromptCache_get ev w p = Inr v \<and> truthy v"
  shows "snd (run ev w b) = w
       \<and> run ev (snd (run ev w b)) b = run ev w b
       \<and> gather (map (gen_prompt ev) ps) w
           = (Inr (map (\<lambda>p. projr (PromptCache_get ev w p)) ps), w)"
proof -
  have g: "gather (map (gen_prompt ev) ps) w
             = (Inr (map (\<lambda>p. projr (PromptCache_get ev w p)) ps), w)"
    using warm by (rule gather_warm)
  have "snd (pipeline ev w b) = w"
    using cp g by (simp add: pipeline_def split: sum.split)
  then have s: "snd (run ev w b) = w"
    by (cases "pipeline ev w b") (auto simp: run_def split: sum.split)
  with g show ?thesis by simp
qed

theorem warm_run_idempotent_witness:
  "copies_and_prompts offline_env aqua_brief =
     Inr (JList [JStr ''Aqua - Unleash Energy #1'', JStr ''Aqua - Unleash Energy #2'',
                 JStr ''Aqua long copy version 1''],
          [aqua_prompt, aqua_prompt, aqua_prompt])
   \<and> PromptCache_get offline_env warm_world aqua_prompt = Inr aqua_image \<and> truthy aqua_image
   \<and> snd (run offline_env warm_world aqua_brief) = warm_world
   \<and> run offline_env (snd (run offline_env warm_world aqua_brief)) aqua_brief
       = run offline_env warm_world aqua_brief"
proof -
  from warm_get(1) truthy_aqua_image
  have warm: "\<forall>p\<in>set [aqua_prompt, aqua_prompt, aqua_prompt].
      \<exists>v. PromptCache_get offline_env warm_world p = Inr v \<and> truthy v" by simp
  from warm_run_idempotent [OF offline_copies warm] offline_copies warm_get(1) truthy_aqua_image
  show ?thesis by simp
qed

end
